theory Spec2Isabelle
  imports Complex_Main
begin

section \<open>Python values and exceptions\<close>

text \<open>
  The build script \<^verbatim>\<open>limesdr_xtrx.py\<close> composes a LiteX SoC and drives a two-run build.
  Exceptions are values: a computation returns \<open>Inl e\<close> where the Python raises \<open>e\<close>.
\<close>

datatype py_error =
    KeyError string
  | TypeError
  | AttributeError
  | NameError
  | SystemExit int
  | OSError string
  | SoCError string

text \<open>
  A command-line value is a \<^verbatim>\<open>str\<close> unless the option declares a conversion; a default is
  kept as written. The flash offset therefore is either an \<^verbatim>\<open>int\<close> or a \<^verbatim>\<open>str\<close>.
\<close>

datatype py_value = PyInt int | PyStr string

definition bind_err :: "py_error + 'a \<Rightarrow> ('a \<Rightarrow> py_error + 'b) \<Rightarrow> py_error + 'b" where
  "bind_err m f = (case m of Inl e \<Rightarrow> Inl e | Inr x \<Rightarrow> f x)"

text \<open>\<^verbatim>\<open>a + v\<close> with \<open>a\<close> an \<^verbatim>\<open>int\<close>: adding a \<^verbatim>\<open>str\<close> raises \<^verbatim>\<open>TypeError\<close>.\<close>

definition py_add :: "int \<Rightarrow> py_value \<Rightarrow> py_error + int" where
  "py_add a v = (case v of PyInt b \<Rightarrow> Inr (a + b) | PyStr s \<Rightarrow> Inl TypeError)"

text \<open>\<^verbatim>\<open>str(i)\<close> for a non-negative integer.\<close>

fun str_nat :: "nat \<Rightarrow> string" where
  "str_nat n =
     (if n < 10 then [''0123456789'' ! n]
      else str_nat (n div 10) @ [''0123456789'' ! (n mod 10)])"

text \<open>\<^verbatim>\<open>os.path.join(a, b)\<close> on POSIX paths.\<close>

definition os_path_join :: "string \<Rightarrow> string \<Rightarrow> string" where
  "os_path_join a b =
     (if b \<noteq> [] \<and> hd b = CHR ''/'' then b
      else if a = [] \<or> last a = CHR ''/'' then a @ b
      else a @ ''/'' @ b)"

section \<open>The composed system\<close>

text \<open>
  The composition is recorded in one value: the arguments handed to \<^verbatim>\<open>SoCCore.__init__\<close>, the
  bus regions, the exported constants, the components attached as attributes, the clocking
  and timing declarations, and the stream connections.
\<close>

datatype platform = Fairwaves_xtrx_platform string | Limesdr_xtrx_platform

record SoCRegion =
  origin :: int
  size_r :: int
  linker :: bool

record StreamLink =
  producer :: string
  consumer :: string
  keep :: "string set"

record soc =
  soc_platform :: platform
  soc_sys_clk_freq :: int
  cpu_type :: "string option"
  cpu_variant :: string
  integrated_rom_size :: int
  integrated_sram_ram_size :: int
  integrated_main_ram_size :: int
  integrated_main_ram_init :: "int list"
  uart_name :: string
  soc_csr_map :: "(string \<times> nat) list"
  vexriscv_debug :: "(bool \<times> nat \<times> bool) option"
  uart_auto_tx_flush :: "(int \<times> int \<times> int) option"
  regions :: "string \<rightharpoonup> SoCRegion"
  constants :: "string \<rightharpoonup> int"
  components :: "string list"
  clock_domains :: "string list"
  pll_clkin :: "(string \<times> int) option"
  pll_clkouts :: "(string \<times> int) list"
  period_constraints :: "(string \<times> rat) list"
  false_path_constraints :: "(string \<times> string) list"
  pre_placement_commands :: "string list"
  comb_links :: "StreamLink list"

subsection \<open>What the LiteX library decides\<close>

text \<open>
  LiteX, LitePCIe and migen are libraries outside this repository. The values they decide and
  this script reads back are parameters of the model:
  \<^item> \<open>mem_map\<close>: the dictionary \<^verbatim>\<open>self.mem_map\<close> after \<^verbatim>\<open>SoCCore.__init__\<close>;
  \<^item> \<open>soccore_regions\<close>: the bus regions \<^verbatim>\<open>SoCCore.__init__\<close> commits, given the three
    integrated memory sizes it is called with;
  \<^item> \<open>spiflash_region\<close>: the region \<^verbatim>\<open>add_spi_flash\<close> commits under the name
    \<^verbatim>\<open>spiflash\<close> (line 158 reads it back);
  \<^item> \<open>get_mem_data\<close>: the words read from a firmware file, or the exception of the read;
  \<^item> \<open>endpoint_fields\<close>: the fields each stream endpoint declares (the endpoints of the
    DMA engine and of \<^verbatim>\<open>gateware/LimeTop.py\<close>, which is not part of the sources at hand).
\<close>

record litex_env =
  mem_map :: "string \<rightharpoonup> int"
  soccore_regions :: "int \<Rightarrow> int \<Rightarrow> int \<Rightarrow> (string \<rightharpoonup> SoCRegion)"
  spiflash_region :: SoCRegion
  get_mem_data :: "string \<Rightarrow> py_error + int list"
  endpoint_fields :: "string \<Rightarrow> string set"

subsection \<open>The peripheral-index table\<close>

text \<open>\<^verbatim>\<open>SoCCore.csr_map\<close>, lines 70 to 89: a dictionary literal, in the order written.\<close>

definition csr_map :: "(string \<times> nat) list" where
  "csr_map =
     [(''uart'', 0), (''icap'', 1), (''flash'', 2), (''xadc'', 3), (''dna'', 4),
      (''pcie_phy'', 10), (''pcie_msi'', 11), (''pcie_dma0'', 12),
      (''i2c0'', 20), (''i2c1'', 21),
      (''analyzer'', 30)]"

subsection \<open>Library operations, as records on the composed system\<close>

text \<open>\<^verbatim>\<open>self.x = ...\<close>: the component is attached under the attribute's name.\<close>

definition add_component :: "string \<Rightarrow> soc \<Rightarrow> soc" where
  "add_component name s = s\<lparr>components := components s @ [name]\<rparr>"

text \<open>\<^verbatim>\<open>self.add_constant(name, value)\<close>.\<close>

definition add_constant :: "string \<Rightarrow> int \<Rightarrow> soc \<Rightarrow> soc" where
  "add_constant name v s = s\<lparr>constants := (constants s)(name \<mapsto> v)\<rparr>"

text \<open>
  \<^verbatim>\<open>self.bus.add_region(name, region)\<close>: LiteX refuses a name that is already declared;
  otherwise the region is stored under the name.
\<close>

definition bus_add_region :: "string \<Rightarrow> SoCRegion \<Rightarrow> soc \<Rightarrow> py_error + soc" where
  "bus_add_region name region s =
     (if regions s name \<noteq> None then Inl (SoCError name)
      else Inr (s\<lparr>regions := (regions s)(name \<mapsto> region)\<rparr>))"

text \<open>\<^verbatim>\<open>self.bus.regions[name]\<close>: a missing key raises \<^verbatim>\<open>KeyError\<close>.\<close>

definition bus_region :: "soc \<Rightarrow> string \<Rightarrow> py_error + SoCRegion" where
  "bus_region s name = (case regions s name of None \<Rightarrow> Inl (KeyError name) | Some r \<Rightarrow> Inr r)"

text \<open>\<^verbatim>\<open>platform.add_period_constraint(clk, period)\<close> and
  \<^verbatim>\<open>platform.add_false_path_constraints(a, b)\<close>, with clocks named by their domain.\<close>

definition add_period_constraint :: "string \<Rightarrow> rat \<Rightarrow> soc \<Rightarrow> soc" where
  "add_period_constraint clk period s =
     s\<lparr>period_constraints := period_constraints s @ [(clk, period)]\<rparr>"

definition add_false_path_constraints :: "string \<Rightarrow> string \<Rightarrow> soc \<Rightarrow> soc" where
  "add_false_path_constraints a b s =
     s\<lparr>false_path_constraints := false_path_constraints s @ [(a, b)]\<rparr>"

text \<open>\<^verbatim>\<open>a.connect(b, keep=k)\<close>: one link from producer \<open>a\<close> to consumer \<open>b\<close>.\<close>

definition connect :: "string \<Rightarrow> string \<Rightarrow> string set \<Rightarrow> StreamLink" where
  "connect a b k = \<lparr>producer = a, consumer = b, keep = k\<rparr>"

text \<open>
  \<^verbatim>\<open>self.add_jtagbone()\<close>: the bridge and its PHY, whose clock domain \<^verbatim>\<open>cd_jtag\<close> line 132
  constrains.
\<close>

definition add_jtagbone :: "soc \<Rightarrow> soc" where
  "add_jtagbone s =
     (add_component ''jtagbone'' (add_component ''jtagbone_phy'' s))
       \<lparr>clock_domains := clock_domains s @ [''jtag'']\<rparr>"

text \<open>
  \<^verbatim>\<open>self.add_spi_flash(mode="1x", module=..., with_master=False)\<close>: the memory-mapped flash
  controller, with its region \<^verbatim>\<open>spiflash\<close>.
\<close>

definition add_spi_flash :: "litex_env \<Rightarrow> soc \<Rightarrow> py_error + soc" where
  "add_spi_flash env s =
     bus_add_region ''spiflash'' (spiflash_region env) (add_component ''spiflash'' s)"

text \<open>\<^verbatim>\<open>self.add_pcie(phy=..., ndmas=1, ...)\<close>: the endpoint, the MSI block and one DMA.\<close>

definition add_pcie :: "soc \<Rightarrow> soc" where
  "add_pcie s = add_component ''pcie_dma0'' (add_component ''pcie_msi'' s)"

text \<open>
  \<^verbatim>\<open>self.bus.add_slave(name, slave, region)\<close> with a region given: the region is added to the
  bus under the slave's name.
\<close>

definition bus_add_slave :: "string \<Rightarrow> SoCRegion \<Rightarrow> soc \<Rightarrow> py_error + soc" where
  "bus_add_slave name region s = bus_add_region name region s"

section \<open>CRG\<close>

text \<open>
  Lines 46 to 65: domains \<^verbatim>\<open>sys\<close> and \<^verbatim>\<open>idelay\<close>, both outputs of one PLL fed by the
  125 MHz clock of domain \<^verbatim>\<open>pcie\<close>.
\<close>

definition CRG :: "int \<Rightarrow> soc \<Rightarrow> soc" where
  "CRG sys_clk_freq s =
     (add_component ''crg'' s)
       \<lparr>clock_domains := clock_domains s @ [''sys'', ''idelay''],
        pll_clkin := Some (''pcie'', 125000000),
        pll_clkouts := pll_clkouts s @ [(''sys'', sys_clk_freq), (''idelay'', 200000000)]\<rparr>"

section \<open>BaseSoC\<close>

text \<open>Lines 99 to 103: the dictionary of platforms, indexed by the board's name.\<close>

definition platform_of :: "string \<Rightarrow> py_error + platform" where
  "platform_of board =
     (if board = ''fairwaves_cs'' then Inr (Fairwaves_xtrx_platform ''xc7a35t'')
      else if board = ''fairwaves_pro'' then Inr (Fairwaves_xtrx_platform ''xc7a50t'')
      else if board = ''limesdr'' then Inr Limesdr_xtrx_platform
      else Inl (KeyError board))"

text \<open>
  Lines 105 to 122: the debug options of the CPU class, then \<^verbatim>\<open>SoCCore.__init__\<close>. Line 120
  reads the firmware only when one is given and \<open>flash_boot\<close> is off.
\<close>

definition main_ram_init ::
  "litex_env \<Rightarrow> string option \<Rightarrow> bool \<Rightarrow> py_error + int list" where
  "main_ram_init env cpu_firmware flash_boot =
     (case cpu_firmware of
        None \<Rightarrow> Inr []
      | Some f \<Rightarrow> if flash_boot then Inr [] else get_mem_data env f)"

definition SoCCore_init ::
  "litex_env \<Rightarrow> platform \<Rightarrow> int \<Rightarrow> bool \<Rightarrow> bool \<Rightarrow> int list \<Rightarrow> soc" where
  "SoCCore_init env p sys_clk_freq with_cpu with_bscan init =
     \<lparr>soc_platform = p,
      soc_sys_clk_freq = sys_clk_freq,
      cpu_type = (if with_cpu then Some ''vexriscv_smp'' else None),
      cpu_variant = ''standard'',
      integrated_rom_size = (if with_cpu then 0x8000 else 0),
      integrated_sram_ram_size = (if with_cpu then 0x1000 else 0),
      integrated_main_ram_size = (if with_cpu then 0x4000 else 0),
      integrated_main_ram_init = init,
      uart_name = ''crossover'',
      soc_csr_map = csr_map,
      vexriscv_debug = (if with_bscan then Some (True, 4, True) else None),
      uart_auto_tx_flush = None,
      regions = soccore_regions env
        (if with_cpu then 0x8000 else 0) (if with_cpu then 0x1000 else 0)
        (if with_cpu then 0x4000 else 0),
      constants = Map.empty,
      components = [],
      clock_domains = [],
      pll_clkin = None,
      pll_clkouts = [],
      period_constraints = [],
      false_path_constraints = [],
      pre_placement_commands = [],
      comb_links = []\<rparr>"

text \<open>Lines 129 to 133.\<close>

definition jtagbone_section :: "bool \<Rightarrow> soc \<Rightarrow> soc" where
  "jtagbone_section with_jtagbone s =
     (if with_jtagbone then
        add_false_path_constraints ''jtag'' ''sys''
          (add_period_constraint ''jtag'' (1000000000 / 20000000) (add_jtagbone s))
      else s)"

text \<open>
  Lines 246 to 263. The CPU's JTAG signals exist on a CPU only: with no CPU the attribute
  reads fail.
\<close>

definition add_jtag_cpu_debug :: "soc \<Rightarrow> py_error + soc" where
  "add_jtag_cpu_debug s =
     (if cpu_type s = None then Inl AttributeError
      else Inr
        (add_false_path_constraints ''jtag'' ''sys''
          (add_period_constraint ''jtag'' (1000000000 / 20000000)
            ((add_component ''cd_jtag'' (add_component ''jtag'' s))
               \<lparr>clock_domains := clock_domains s @ [''jtag'']\<rparr>))))"

text \<open>Lines 135 to 137.\<close>

definition jtag_cpu_debug_section :: "bool \<Rightarrow> soc \<Rightarrow> py_error + soc" where
  "jtag_cpu_debug_section with_bscan s = (if with_bscan then add_jtag_cpu_debug s else Inr s)"

text \<open>Lines 150 to 168: the boot mode.\<close>

definition spiflash_section :: "litex_env \<Rightarrow> bool \<Rightarrow> py_value \<Rightarrow> soc \<Rightarrow> py_error + soc" where
  "spiflash_section env flash_boot firmware_flash_offset s =
     (if flash_boot then
        bind_err (add_spi_flash env s) (\<lambda>s1.
        bind_err (bus_region s1 ''spiflash'') (\<lambda>sf.
        bind_err (py_add (origin sf) firmware_flash_offset) (\<lambda>org.
        bind_err (bus_add_region ''flash'' \<lparr>origin = org, size_r = 0x40000, linker = True\<rparr> s1) (\<lambda>s2.
        bind_err (bus_region s2 ''flash'') (\<lambda>fl.
        Inr (add_constant ''FLASH_BOOT_ADDRESS'' (origin fl) s2))))))
      else
        (case mem_map env ''main_ram'' of
           None \<Rightarrow> Inl (KeyError ''main_ram'')
         | Some a \<Rightarrow>
             Inr (add_component ''flash''
                   (add_component ''flash_cs_n''
                     (add_constant ''ROM_BOOT_ADDRESS'' a s)))))"

text \<open>Lines 222 to 226: three commands for each of the four clock outputs of the PCIe PHY.\<close>

definition clock_group_commands :: "nat \<Rightarrow> string list" where
  "clock_group_commands i =
     [''set_clock_groups -group [get_clocks {{*s7pciephy_clkout'' @ str_nat i @
        ''}}] -group [get_clocks        dna_clk] -asynchronous'',
      ''set_clock_groups -group [get_clocks {{*s7pciephy_clkout'' @ str_nat i @
        ''}}] -group [get_clocks       jtag_clk] -asynchronous'',
      ''set_clock_groups -group [get_clocks {{*s7pciephy_clkout'' @ str_nat i @
        ''}}] -group [get_clocks       icap_clk] -asynchronous'']"

primrec timing_loop :: "nat list \<Rightarrow> soc \<Rightarrow> soc" where
  "timing_loop [] s = s"
| "timing_loop (i # is) s =
     timing_loop is (s\<lparr>pre_placement_commands := pre_placement_commands s @ clock_group_commands i\<rparr>)"

text \<open>Lines 228 to 242: the LimeTop core, its register window and the two stream links.\<close>

definition lime_top_section :: "soc \<Rightarrow> py_error + soc" where
  "lime_top_section s =
     bind_err (bus_add_slave ''lime_top_mmap'' \<lparr>origin = 0x3000000, size_r = 0x1000, linker = False\<rparr>
                 (add_component ''lime_top'' s)) (\<lambda>s1.
     Inr (s1\<lparr>comb_links := comb_links s1 @
            [connect ''pcie_dma0.source'' ''lime_top.dma_rx'' {''valid'', ''ready'', ''last'', ''data''},
             connect ''lime_top.dma_tx'' ''pcie_dma0.sink'' {''valid'', ''ready'', ''last'', ''data''}]\<rparr>))"

text \<open>Lines 139 to 148 and 170 to 220: the components attached in both boot modes.\<close>

definition leds_icap_section :: "soc \<Rightarrow> soc" where
  "leds_icap_section s = add_component ''icap'' (add_component ''leds'' s)"

definition peripherals_section :: "soc \<Rightarrow> soc" where
  "peripherals_section s =
     add_component ''aux''
       (add_component ''i2c1''
         (add_component ''i2c0''
           (add_pcie
             (add_component ''pcie_phy''
               (add_component ''dna''
                 (add_component ''xadc'' s))))))"

text \<open>\<^verbatim>\<open>BaseSoC.__init__\<close>, lines 91 to 242, in the order of the source.\<close>

definition BaseSoC ::
  "litex_env \<Rightarrow> string \<Rightarrow> int \<Rightarrow> bool \<Rightarrow> string option \<Rightarrow> bool \<Rightarrow> bool \<Rightarrow> bool \<Rightarrow> py_value
     \<Rightarrow> py_error + soc" where
  "BaseSoC env board sys_clk_freq with_cpu cpu_firmware with_jtagbone with_bscan flash_boot
       firmware_flash_offset =
     bind_err (platform_of board) (\<lambda>p.
     bind_err (main_ram_init env cpu_firmware flash_boot) (\<lambda>init.
     bind_err (jtag_cpu_debug_section with_bscan
                (jtagbone_section with_jtagbone
                  (CRG sys_clk_freq
                    ((SoCCore_init env p sys_clk_freq with_cpu with_bscan init)
                       \<lparr>uart_auto_tx_flush := Some (sys_clk_freq, 1, 128)\<rparr>)))) (\<lambda>s1.
     bind_err (spiflash_section env flash_boot firmware_flash_offset (leds_icap_section s1)) (\<lambda>s2.
     lime_top_section (timing_loop [0..<4] (peripherals_section s2))))))"

section \<open>The command line\<close>

text \<open>
  What the user wrote: for each option of lines 269 to 277, whether it was given and with
  which text.
\<close>

record cli =
  cli_board :: "string option"
  cli_with_bscan :: bool
  cli_build :: bool
  cli_load :: bool
  cli_flash :: bool
  cli_cable :: "string option"
  cli_driver :: bool
  cli_flash_boot :: bool
  cli_firmware_flash_offset :: "string option"

text \<open>The namespace \<^verbatim>\<open>parser.parse_args()\<close> returns.\<close>

record args =
  args_board :: string
  args_with_bscan :: bool
  args_build :: bool
  args_load :: bool
  args_flash :: bool
  args_cable :: string
  args_driver :: bool
  args_flash_boot :: bool
  args_firmware_flash_offset :: py_value

text \<open>
  Lines 268 to 278. \<^verbatim>\<open>--board\<close> has choices: another name ends the program with status 2.
  \<^verbatim>\<open>--firmware-flash-offset\<close> declares a default and no \<^verbatim>\<open>type\<close>: the default stays the
  integer \<^verbatim>\<open>0x220000\<close>, a value given on the command line stays the text that was typed.
\<close>

definition parse_args :: "cli \<Rightarrow> py_error + args" where
  "parse_args c =
     bind_err
       (case cli_board c of
          None \<Rightarrow> Inr ''fairwaves_pro''
        | Some b \<Rightarrow>
            if b = ''fairwaves_cs'' \<or> b = ''fairwaves_pro'' \<or> b = ''limesdr'' then Inr b
            else Inl (SystemExit 2))
       (\<lambda>b. Inr
         \<lparr>args_board = b,
          args_with_bscan = cli_with_bscan c,
          args_build = cli_build c,
          args_load = cli_load c,
          args_flash = cli_flash c,
          args_cable = (case cli_cable c of None \<Rightarrow> ''digilent_hs2'' | Some x \<Rightarrow> x),
          args_driver = cli_driver c,
          args_flash_boot = cli_flash_boot c,
          args_firmware_flash_offset =
            (case cli_firmware_flash_offset c of None \<Rightarrow> PyInt 0x220000 | Some t \<Rightarrow> PyStr t)\<rparr>)"

section \<open>main\<close>

text \<open>
  The steps outside the script, which \<open>main\<close> starts in order, are logged as events. What
  they answer is a parameter: whether \<^verbatim>\<open>builder.build\<close> raises in a run, the status
  \<^verbatim>\<open>os.system\<close> returns for the firmware's \<^verbatim>\<open>make\<close>, and the builder's directories.
\<close>

datatype event =
    Builder_build nat bool
  | Os_system string
  | Generate_litepcie_software string bool
  | Load_bitstream string string
  | Prog_flash string py_value string
  | Insert_crc string string

record world =
  litex :: litex_env
  builder_build :: "nat \<Rightarrow> soc \<Rightarrow> bool \<Rightarrow> py_error option"
  make_status :: int
  output_dir :: string
  gateware_dir :: string
  build_name :: string

text \<open>\<^verbatim>\<open>builder.build(run=True)\<close> is the request for the hardware image.\<close>

fun requests_image :: "event \<Rightarrow> bool" where
  "requests_image (Builder_build run b) = b"
| "requests_image (Os_system c) = False"
| "requests_image (Generate_litepcie_software d u) = False"
| "requests_image (Load_bitstream c f) = False"
| "requests_image (Prog_flash c a f) = False"
| "requests_image (Insert_crc i o_filename) = False"

text \<open>Line 286: the firmware argument of a run.\<close>

definition cpu_firmware_arg :: "nat \<Rightarrow> string option" where
  "cpu_firmware_arg run = (if run = 0 then None else Some ''firmware/firmware.bin'')"

text \<open>Lines 284 to 291: the composition of one run (the other arguments keep their defaults).\<close>

definition compose :: "litex_env \<Rightarrow> args \<Rightarrow> nat \<Rightarrow> py_error + soc" where
  "compose env a run =
     BaseSoC env (args_board a) 125000000 True (cpu_firmware_arg run)
       (\<not> args_with_bscan a) (args_with_bscan a) (args_flash_boot a)
       (args_firmware_flash_offset a)"

text \<open>
  Lines 281 to 295: the loop over the runs. The status of \<^verbatim>\<open>os.system\<close> is not read. An
  exception ends the loop with what was logged so far.
\<close>

fun build_loop ::
  "world \<Rightarrow> args \<Rightarrow> nat list \<Rightarrow> event list \<Rightarrow> soc option
     \<Rightarrow> event list \<times> (py_error + soc option)" where
  "build_loop W a [] evs prev = (evs, Inr prev)"
| "build_loop W a (run # runs) evs prev =
     (case compose (litex W) a run of
        Inl e \<Rightarrow> (evs, Inl e)
      | Inr s \<Rightarrow>
          (case builder_build W run s (run = 1 \<and> args_build a) of
             Some e \<Rightarrow> (evs @ [Builder_build run (run = 1 \<and> args_build a)], Inl e)
           | None \<Rightarrow>
               build_loop W a runs
                 (evs @ [Builder_build run (run = 1 \<and> args_build a)] @
                    (if run = 0
                     then [Os_system (''cd firmware && make BUILD_DIR='' @ output_dir W @ '' clean all'')]
                     else []))
                 (Some s)))"

text \<open>Lines 297 to 315: the steps after the loop.\<close>

definition post_build :: "world \<Rightarrow> args \<Rightarrow> event list" where
  "post_build W a =
     [Generate_litepcie_software ''software'' (args_driver a)] @
     (if args_load a
      then [Load_bitstream (args_cable a) (os_path_join (gateware_dir W) (build_name W @ ''.bit''))]
      else []) @
     (if args_flash a
      then [Prog_flash (args_cable a) (PyInt 0) (os_path_join (gateware_dir W) (build_name W @ ''.bin''))]
      else []) @
     (if args_flash_boot a \<and> args_flash a
      then [Insert_crc ''firmware/firmware.bin'' ''firmware/firmware.fbi'',
            Prog_flash (args_cable a) (args_firmware_flash_offset a) ''firmware/firmware.fbi'']
      else [])"

text \<open>
  \<open>main\<close>, lines 267 to 315: the events started, and the exception that ended the program,
  if any. A loop that never ran would leave \<^verbatim>\<open>soc\<close> unbound.
\<close>

definition main :: "world \<Rightarrow> cli \<Rightarrow> event list \<times> py_error option" where
  "main W c =
     (case parse_args c of
        Inl e \<Rightarrow> ([], Some e)
      | Inr a \<Rightarrow>
          (case build_loop W a [0..<2] [] None of
             (evs, Inl e) \<Rightarrow> (evs, Some e)
           | (evs, Inr None) \<Rightarrow> (evs, Some NameError)
           | (evs, Inr (Some s)) \<Rightarrow> (evs @ post_build W a, None)))"

section \<open>The timing rule of the specification\<close>






section \<open>Reference inputs\<close>

text \<open>
  A concrete library environment: the memory map and regions of a VexRiscv-SMP SoC with the
  sizes of this script, a 32 MiB flash window, a firmware file of two words, and stream
  endpoints with the four handshake and data fields.
\<close>

definition env0 :: litex_env where
  "env0 =
     \<lparr>mem_map = [''rom'' \<mapsto> 0x0, ''sram'' \<mapsto> 0x10000000, ''main_ram'' \<mapsto> 0x40000000],
      soccore_regions = (\<lambda>rom sram ram.
        [''rom'' \<mapsto> \<lparr>origin = 0x0, size_r = rom, linker = False\<rparr>,
         ''sram'' \<mapsto> \<lparr>origin = 0x10000000, size_r = sram, linker = False\<rparr>,
         ''main_ram'' \<mapsto> \<lparr>origin = 0x40000000, size_r = ram, linker = False\<rparr>,
         ''csr'' \<mapsto> \<lparr>origin = 0xf0000000, size_r = 0x10000, linker = False\<rparr>]),
      spiflash_region = \<lparr>origin = 0x20000000, size_r = 0x2000000, linker = False\<rparr>,
      get_mem_data = (\<lambda>f.
        if f = ''firmware/firmware.bin'' then Inr [0x00000013, 0x0000006f] else Inl (OSError f)),
      endpoint_fields = (\<lambda>e. {''valid'', ''ready'', ''last'', ''data''})\<rparr>"

definition world0 :: world where
  "world0 =
     \<lparr>litex = env0,
      builder_build = (\<lambda>run s b. None),
      make_status = 0,
      output_dir = ''build/limesdr_xtrx_platform'',
      gateware_dir = ''build/limesdr_xtrx_platform/gateware'',
      build_name = ''limesdr_xtrx_platform''\<rparr>"

definition cli0 :: cli where
  "cli0 =
     \<lparr>cli_board = Some ''limesdr'',
      cli_with_bscan = False,
      cli_build = True,
      cli_load = False,
      cli_flash = False,
      cli_cable = None,
      cli_driver = False,
      cli_flash_boot = False,
      cli_firmware_flash_offset = None\<rparr>"

text \<open>The namespace parsed from \<open>cli0\<close>.\<close>

definition args0 :: args where
  "args0 =
     \<lparr>args_board = ''limesdr'',
      args_with_bscan = False,
      args_build = True,
      args_load = False,
      args_flash = False,
      args_cable = ''digilent_hs2'',
      args_driver = False,
      args_flash_boot = False,
      args_firmware_flash_offset = PyInt 0x220000\<rparr>"

text \<open>
  A build whose firmware compilation fails: \<^verbatim>\<open>make\<close> returns status 2 and leaves no
  firmware file behind.
\<close>

definition world_make_fails :: world where
  "world_make_fails =
     world0\<lparr>litex := env0\<lparr>get_mem_data := (\<lambda>f. Inl (OSError f))\<rparr>, make_status := 2\<rparr>"

text \<open>\<^verbatim>\<open>--board limesdr --build --flash-boot\<close>.\<close>

definition cli_flash_boot_build :: cli where
  "cli_flash_boot_build = cli0\<lparr>cli_flash_boot := True\<rparr>"

text \<open>\<^verbatim>\<open>--board limesdr --build --flash-boot --firmware-flash-offset 0x220000\<close>.\<close>

definition cli_flash_boot_offset :: cli where
  "cli_flash_boot_offset =
     cli0\<lparr>cli_flash_boot := True, cli_firmware_flash_offset := Some ''0x220000''\<rparr>"

text \<open>\<^verbatim>\<open>--board limesdr --build --with-bscan\<close>.\<close>

definition cli_with_bscan_build :: cli where
  "cli_with_bscan_build = cli0\<lparr>cli_with_bscan := True\<rparr>"

section \<open>The library contract behind the boot address\<close>

text \<open>
  \<^verbatim>\<open>SoCCore.__init__\<close> places the integrated main RAM at \<^verbatim>\<open>mem_map["main_ram"]\<close>. The
  script relies on it when it exports that entry as the boot address.
\<close>

definition main_ram_at_mem_map :: "litex_env \<Rightarrow> bool" where
  "main_ram_at_mem_map env =
     (\<forall>rom sram ram r. soccore_regions env rom sram ram ''main_ram'' = Some r \<longrightarrow>
        mem_map env ''main_ram'' = Some (origin r))"

section \<open>What each section of the composition leaves behind\<close>

text \<open>
  Each section is read as one update of the composed system, with the conditions under which
  it returns. The lemmas are then chained along \<open>BaseSoC\<close>.
\<close>

lemma timing_loop_eq:
  "timing_loop ns s =
     s\<lparr>pre_placement_commands := pre_placement_commands s @ concat (map clock_group_commands ns)\<rparr>"
  by (induction ns arbitrary: s) simp_all

lemma jtagbone_section_eq:
  "jtagbone_section jb s =
     s\<lparr>components := components s @ (if jb then [''jtagbone_phy'', ''jtagbone''] else []),
       clock_domains := clock_domains s @ (if jb then [''jtag''] else []),
       period_constraints := period_constraints s @ (if jb then [(''jtag'', 50)] else []),
       false_path_constraints :=
         false_path_constraints s @ (if jb then [(''jtag'', ''sys'')] else [])\<rparr>"
  by (simp add: jtagbone_section_def add_jtagbone_def add_component_def
      add_period_constraint_def add_false_path_constraints_def)

lemma jtag_cpu_debug_section_Inr:
  assumes "jtag_cpu_debug_section bs s = Inr s'"
  shows "(bs \<longrightarrow> cpu_type s \<noteq> None) \<and>
     s' = s\<lparr>components := components s @ (if bs then [''jtag'', ''cd_jtag''] else []),
       clock_domains := clock_domains s @ (if bs then [''jtag''] else []),
       period_constraints := period_constraints s @ (if bs then [(''jtag'', 50)] else []),
       false_path_constraints :=
         false_path_constraints s @ (if bs then [(''jtag'', ''sys'')] else [])\<rparr>"
proof (cases bs)
  case True
  with assms show ?thesis
    by (cases "cpu_type s = None")
       (simp_all add: jtag_cpu_debug_section_def add_jtag_cpu_debug_def add_component_def
          add_period_constraint_def add_false_path_constraints_def)
next
  case False
  with assms show ?thesis by (auto simp add: jtag_cpu_debug_section_def)
qed

lemma peripherals_section_eq:
  "peripherals_section s =
     s\<lparr>components := components s @
        [''xadc'', ''dna'', ''pcie_phy'', ''pcie_msi'', ''pcie_dma0'', ''i2c0'', ''i2c1'', ''aux'']\<rparr>"
  by (simp add: peripherals_section_def add_pcie_def add_component_def)

lemma leds_icap_section_eq:
  "leds_icap_section s = s\<lparr>components := components s @ [''leds'', ''icap'']\<rparr>"
  by (simp add: leds_icap_section_def add_component_def)

lemma lime_top_section_Inr:
  assumes "lime_top_section t = Inr s"
  shows "regions t ''lime_top_mmap'' = None \<and>
     s = t\<lparr>components := components t @ [''lime_top''],
           regions := (regions t)(''lime_top_mmap'' \<mapsto>
              \<lparr>origin = 0x3000000, size_r = 0x1000, linker = False\<rparr>),
           comb_links := comb_links t @
            [connect ''pcie_dma0.source'' ''lime_top.dma_rx'' {''valid'', ''ready'', ''last'', ''data''},
             connect ''lime_top.dma_tx'' ''pcie_dma0.sink'' {''valid'', ''ready'', ''last'', ''data''}]\<rparr>"
  using assms
  by (cases "regions t ''lime_top_mmap''")
     (auto simp add: lime_top_section_def bind_err_def bus_add_slave_def bus_add_region_def
        add_component_def)

lemma spiflash_section_flash_Inr:
  assumes "spiflash_section env True off t = Inr s"
  shows "\<exists>n. off = PyInt n \<and> regions t ''spiflash'' = None \<and> regions t ''flash'' = None \<and>
     s = t\<lparr>components := components t @ [''spiflash''],
           regions := (regions t)(''spiflash'' \<mapsto> spiflash_region env,
              ''flash'' \<mapsto> \<lparr>origin = origin (spiflash_region env) + n, size_r = 0x40000,
                 linker = True\<rparr>),
           constants := (constants t)(''FLASH_BOOT_ADDRESS'' \<mapsto> origin (spiflash_region env) + n)\<rparr>"
proof (cases off)
  case (PyInt n)
  with assms show ?thesis
    by (cases "regions t ''spiflash''"; cases "regions t ''flash''")
       (simp_all add: spiflash_section_def bind_err_def add_spi_flash_def bus_add_region_def
          bus_region_def py_add_def add_constant_def add_component_def)
next
  case (PyStr x)
  with assms show ?thesis
    by (cases "regions t ''spiflash''")
       (simp_all add: spiflash_section_def bind_err_def add_spi_flash_def bus_add_region_def
          bus_region_def py_add_def add_component_def)
qed

lemma spiflash_section_ram_Inr:
  assumes "spiflash_section env False off t = Inr s"
  shows "\<exists>a. mem_map env ''main_ram'' = Some a \<and>
     s = t\<lparr>constants := (constants t)(''ROM_BOOT_ADDRESS'' \<mapsto> a),
           components := components t @ [''flash_cs_n'', ''flash'']\<rparr>"
  using assms
  by (cases "mem_map env ''main_ram''")
     (simp_all add: spiflash_section_def add_constant_def add_component_def)

lemma BaseSoC_stages:
  assumes "BaseSoC env board f wc fw jb bs fb off = Inr s"
  shows "\<exists>p init s1 s2.
     platform_of board = Inr p \<and> main_ram_init env fw fb = Inr init \<and>
     jtag_cpu_debug_section bs
       (jtagbone_section jb
         (CRG f ((SoCCore_init env p f wc bs init)\<lparr>uart_auto_tx_flush := Some (f, 1, 128)\<rparr>)))
       = Inr s1 \<and>
     spiflash_section env fb off (leds_icap_section s1) = Inr s2 \<and>
     lime_top_section (timing_loop [0..<4] (peripherals_section s2)) = Inr s"
  using assms unfolding BaseSoC_def bind_err_def
  by (simp split: sum.splits)


lemma BaseSoC_pre:
  assumes "BaseSoC env board f wc fw jb bs fb off = Inr s"
  shows "\<exists>p init s2.
     platform_of board = Inr p \<and> main_ram_init env fw fb = Inr init \<and> (bs \<longrightarrow> wc) \<and>
     spiflash_section env fb off
       ((SoCCore_init env p f wc bs init)
          \<lparr>uart_auto_tx_flush := Some (f, 1, 128),
           components := [''crg''] @ (if jb then [''jtagbone_phy'', ''jtagbone''] else []) @
              (if bs then [''jtag'', ''cd_jtag''] else []) @ [''leds'', ''icap''],
           clock_domains := [''sys'', ''idelay''] @ (if jb then [''jtag''] else []) @
              (if bs then [''jtag''] else []),
           pll_clkin := Some (''pcie'', 125000000),
           pll_clkouts := [(''sys'', f), (''idelay'', 200000000)],
           period_constraints := (if jb then [(''jtag'', 50)] else []) @
              (if bs then [(''jtag'', 50)] else []),
           false_path_constraints := (if jb then [(''jtag'', ''sys'')] else []) @
              (if bs then [(''jtag'', ''sys'')] else [])\<rparr>) = Inr s2 \<and>
     regions s2 ''lime_top_mmap'' = None \<and>
     s = s2\<lparr>components := components s2 @
             [''xadc'', ''dna'', ''pcie_phy'', ''pcie_msi'', ''pcie_dma0'', ''i2c0'', ''i2c1'',
              ''aux'', ''lime_top''],
           regions := (regions s2)(''lime_top_mmap'' \<mapsto>
              \<lparr>origin = 0x3000000, size_r = 0x1000, linker = False\<rparr>),
           pre_placement_commands :=
             pre_placement_commands s2 @ concat (map clock_group_commands [0..<4]),
           comb_links := comb_links s2 @
            [connect ''pcie_dma0.source'' ''lime_top.dma_rx'' {''valid'', ''ready'', ''last'', ''data''},
             connect ''lime_top.dma_tx'' ''pcie_dma0.sink'' {''valid'', ''ready'', ''last'', ''data''}]\<rparr>"
proof -
  from BaseSoC_stages [OF assms] obtain p init s1 s2 where
    p: "platform_of board = Inr p" and i: "main_ram_init env fw fb = Inr init" and
    s1: "jtag_cpu_debug_section bs
       (jtagbone_section jb
         (CRG f ((SoCCore_init env p f wc bs init)\<lparr>uart_auto_tx_flush := Some (f, 1, 128)\<rparr>)))
       = Inr s1" and
    s2: "spiflash_section env fb off (leds_icap_section s1) = Inr s2" and
    s3: "lime_top_section (timing_loop [0..<4] (peripherals_section s2)) = Inr s"
    by blast
  note d = jtag_cpu_debug_section_Inr [OF s1]
  from d have wc: "bs \<longrightarrow> wc"
    by (cases wc) (simp_all add: jtagbone_section_eq CRG_def add_component_def SoCCore_init_def)
  from d have
    e1: "leds_icap_section s1 = (SoCCore_init env p f wc bs init)
          \<lparr>uart_auto_tx_flush := Some (f, 1, 128),
           components := [''crg''] @ (if jb then [''jtagbone_phy'', ''jtagbone''] else []) @
              (if bs then [''jtag'', ''cd_jtag''] else []) @ [''leds'', ''icap''],
           clock_domains := [''sys'', ''idelay''] @ (if jb then [''jtag''] else []) @
              (if bs then [''jtag''] else []),
           pll_clkin := Some (''pcie'', 125000000),
           pll_clkouts := [(''sys'', f), (''idelay'', 200000000)],
           period_constraints := (if jb then [(''jtag'', 50)] else []) @
              (if bs then [(''jtag'', 50)] else []),
           false_path_constraints := (if jb then [(''jtag'', ''sys'')] else []) @
              (if bs then [(''jtag'', ''sys'')] else [])\<rparr>"
    by (simp add: jtagbone_section_eq leds_icap_section_eq CRG_def add_component_def
        SoCCore_init_def)
  from lime_top_section_Inr [OF s3]
  have e3: "regions s2 ''lime_top_mmap'' = None"
    and e4: "s = s2\<lparr>components := components s2 @
             [''xadc'', ''dna'', ''pcie_phy'', ''pcie_msi'', ''pcie_dma0'', ''i2c0'', ''i2c1'',
              ''aux'', ''lime_top''],
           regions := (regions s2)(''lime_top_mmap'' \<mapsto>
              \<lparr>origin = 0x3000000, size_r = 0x1000, linker = False\<rparr>),
           pre_placement_commands :=
             pre_placement_commands s2 @ concat (map clock_group_commands [0..<4]),
           comb_links := comb_links s2 @
            [connect ''pcie_dma0.source'' ''lime_top.dma_rx'' {''valid'', ''ready'', ''last'', ''data''},
             connect ''lime_top.dma_tx'' ''pcie_dma0.sink'' {''valid'', ''ready'', ''last'', ''data''}]\<rparr>"
    by (simp_all add: timing_loop_eq peripherals_section_eq)
  from p i wc s2 e1 e3 e4 show ?thesis by metis
qed


lemma BaseSoC_common:
  assumes "BaseSoC env board f wc fw jb bs fb off = Inr s"
  shows "(bs \<longrightarrow> wc) \<and>
     platform_of board = Inr (soc_platform s) \<and>
     main_ram_init env fw fb = Inr (integrated_main_ram_init s) \<and>
     soc_csr_map s = csr_map \<and>
     cpu_type s = (if wc then Some ''vexriscv_smp'' else None) \<and>
     components s =
       [''crg''] @ (if jb then [''jtagbone_phy'', ''jtagbone''] else []) @
       (if bs then [''jtag'', ''cd_jtag''] else []) @ [''leds'', ''icap''] @
       (if fb then [''spiflash''] else [''flash_cs_n'', ''flash'']) @
       [''xadc'', ''dna'', ''pcie_phy'', ''pcie_msi'', ''pcie_dma0'', ''i2c0'', ''i2c1'',
        ''aux'', ''lime_top''] \<and>
     clock_domains s =
       [''sys'', ''idelay''] @ (if jb then [''jtag''] else []) @ (if bs then [''jtag''] else []) \<and>
     pll_clkin s = Some (''pcie'', 125000000) \<and>
     pll_clkouts s = [(''sys'', f), (''idelay'', 200000000)] \<and>
     period_constraints s =
       (if jb then [(''jtag'', 50)] else []) @ (if bs then [(''jtag'', 50)] else []) \<and>
     false_path_constraints s =
       (if jb then [(''jtag'', ''sys'')] else []) @ (if bs then [(''jtag'', ''sys'')] else []) \<and>
     pre_placement_commands s = concat (map clock_group_commands [0..<4]) \<and>
     comb_links s =
       [connect ''pcie_dma0.source'' ''lime_top.dma_rx'' {''valid'', ''ready'', ''last'', ''data''},
        connect ''lime_top.dma_tx'' ''pcie_dma0.sink'' {''valid'', ''ready'', ''last'', ''data''}]"
proof -
  from BaseSoC_pre [OF assms] obtain p init s2 where
    p: "platform_of board = Inr p" and i: "main_ram_init env fw fb = Inr init" and
    wc: "bs \<longrightarrow> wc" and
    s2: "spiflash_section env fb off
       ((SoCCore_init env p f wc bs init)
          \<lparr>uart_auto_tx_flush := Some (f, 1, 128),
           components := [''crg''] @ (if jb then [''jtagbone_phy'', ''jtagbone''] else []) @
              (if bs then [''jtag'', ''cd_jtag''] else []) @ [''leds'', ''icap''],
           clock_domains := [''sys'', ''idelay''] @ (if jb then [''jtag''] else []) @
              (if bs then [''jtag''] else []),
           pll_clkin := Some (''pcie'', 125000000),
           pll_clkouts := [(''sys'', f), (''idelay'', 200000000)],
           period_constraints := (if jb then [(''jtag'', 50)] else []) @
              (if bs then [(''jtag'', 50)] else []),
           false_path_constraints := (if jb then [(''jtag'', ''sys'')] else []) @
              (if bs then [(''jtag'', ''sys'')] else [])\<rparr>) = Inr s2" and
    s: "s = s2\<lparr>components := components s2 @
             [''xadc'', ''dna'', ''pcie_phy'', ''pcie_msi'', ''pcie_dma0'', ''i2c0'', ''i2c1'',
              ''aux'', ''lime_top''],
           regions := (regions s2)(''lime_top_mmap'' \<mapsto>
              \<lparr>origin = 0x3000000, size_r = 0x1000, linker = False\<rparr>),
           pre_placement_commands :=
             pre_placement_commands s2 @ concat (map clock_group_commands [0..<4]),
           comb_links := comb_links s2 @
            [connect ''pcie_dma0.source'' ''lime_top.dma_rx'' {''valid'', ''ready'', ''last'', ''data''},
             connect ''lime_top.dma_tx'' ''pcie_dma0.sink'' {''valid'', ''ready'', ''last'', ''data''}]\<rparr>"
    by blast
  show ?thesis
  proof (cases fb)
    case True
    with s2 spiflash_section_flash_Inr obtain n where
      "s2 = ((SoCCore_init env p f wc bs init)
          \<lparr>uart_auto_tx_flush := Some (f, 1, 128),
           components := [''crg''] @ (if jb then [''jtagbone_phy'', ''jtagbone''] else []) @
              (if bs then [''jtag'', ''cd_jtag''] else []) @ [''leds'', ''icap''],
           clock_domains := [''sys'', ''idelay''] @ (if jb then [''jtag''] else []) @
              (if bs then [''jtag''] else []),
           pll_clkin := Some (''pcie'', 125000000),
           pll_clkouts := [(''sys'', f), (''idelay'', 200000000)],
           period_constraints := (if jb then [(''jtag'', 50)] else []) @
              (if bs then [(''jtag'', 50)] else []),
           false_path_constraints := (if jb then [(''jtag'', ''sys'')] else []) @
              (if bs then [(''jtag'', ''sys'')] else [])\<rparr>)
         \<lparr>components := [''crg''] @ (if jb then [''jtagbone_phy'', ''jtagbone''] else []) @
              (if bs then [''jtag'', ''cd_jtag''] else []) @ [''leds'', ''icap''] @ [''spiflash''],
          regions := (regions (SoCCore_init env p f wc bs init))(''spiflash'' \<mapsto> spiflash_region env,
              ''flash'' \<mapsto> \<lparr>origin = origin (spiflash_region env) + n, size_r = 0x40000,
                 linker = True\<rparr>),
          constants := (constants (SoCCore_init env p f wc bs init))
              (''FLASH_BOOT_ADDRESS'' \<mapsto> origin (spiflash_region env) + n)\<rparr>"
      by fastforce
    with True p i wc s show ?thesis by (simp add: SoCCore_init_def)
  next
    case False
    with s2 spiflash_section_ram_Inr obtain a where
      "s2 = ((SoCCore_init env p f wc bs init)
          \<lparr>uart_auto_tx_flush := Some (f, 1, 128),
           components := [''crg''] @ (if jb then [''jtagbone_phy'', ''jtagbone''] else []) @
              (if bs then [''jtag'', ''cd_jtag''] else []) @ [''leds'', ''icap''],
           clock_domains := [''sys'', ''idelay''] @ (if jb then [''jtag''] else []) @
              (if bs then [''jtag''] else []),
           pll_clkin := Some (''pcie'', 125000000),
           pll_clkouts := [(''sys'', f), (''idelay'', 200000000)],
           period_constraints := (if jb then [(''jtag'', 50)] else []) @
              (if bs then [(''jtag'', 50)] else []),
           false_path_constraints := (if jb then [(''jtag'', ''sys'')] else []) @
              (if bs then [(''jtag'', ''sys'')] else [])\<rparr>)
         \<lparr>constants := (constants (SoCCore_init env p f wc bs init))(''ROM_BOOT_ADDRESS'' \<mapsto> a),
          components := [''crg''] @ (if jb then [''jtagbone_phy'', ''jtagbone''] else []) @
              (if bs then [''jtag'', ''cd_jtag''] else []) @ [''leds'', ''icap''] @
              [''flash_cs_n'', ''flash'']\<rparr>"
      by fastforce
    with False p i wc s show ?thesis by (simp add: SoCCore_init_def)
  qed
qed

lemma BaseSoC_boot_flash:
  assumes "BaseSoC env board f wc fw jb bs True off = Inr s"
  shows "\<exists>n. off = PyInt n \<and>
     soccore_regions env (if wc then 0x8000 else 0) (if wc then 0x1000 else 0)
        (if wc then 0x4000 else 0) ''spiflash'' = None \<and>
     soccore_regions env (if wc then 0x8000 else 0) (if wc then 0x1000 else 0)
        (if wc then 0x4000 else 0) ''flash'' = None \<and>
     soccore_regions env (if wc then 0x8000 else 0) (if wc then 0x1000 else 0)
        (if wc then 0x4000 else 0) ''lime_top_mmap'' = None \<and>
     regions s =
       (soccore_regions env (if wc then 0x8000 else 0) (if wc then 0x1000 else 0)
          (if wc then 0x4000 else 0))
       (''spiflash'' \<mapsto> spiflash_region env,
        ''flash'' \<mapsto> \<lparr>origin = origin (spiflash_region env) + n, size_r = 0x40000, linker = True\<rparr>,
        ''lime_top_mmap'' \<mapsto> \<lparr>origin = 0x3000000, size_r = 0x1000, linker = False\<rparr>) \<and>
     constants s = [''FLASH_BOOT_ADDRESS'' \<mapsto> origin (spiflash_region env) + n]"
proof -
  from BaseSoC_pre [OF assms] obtain t s2 where
    s2: "spiflash_section env True off t = Inr s2" and
    t: "regions t = soccore_regions env (if wc then 0x8000 else 0) (if wc then 0x1000 else 0)
        (if wc then 0x4000 else 0)" "constants t = Map.empty" and
    l: "regions s2 ''lime_top_mmap'' = None" and
    s: "regions s = (regions s2)(''lime_top_mmap'' \<mapsto>
              \<lparr>origin = 0x3000000, size_r = 0x1000, linker = False\<rparr>)" "constants s = constants s2"
    by (fastforce simp add: SoCCore_init_def)
  from spiflash_section_flash_Inr [OF s2] obtain n where
    "off = PyInt n" "regions t ''spiflash'' = None" "regions t ''flash'' = None"
    "regions s2 = (regions t)(''spiflash'' \<mapsto> spiflash_region env,
              ''flash'' \<mapsto> \<lparr>origin = origin (spiflash_region env) + n, size_r = 0x40000,
                 linker = True\<rparr>)"
    "constants s2 = (constants t)(''FLASH_BOOT_ADDRESS'' \<mapsto> origin (spiflash_region env) + n)"
    by fastforce
  with t l s show ?thesis by (auto split: if_splits)
qed

lemma BaseSoC_boot_ram:
  assumes "BaseSoC env board f wc fw jb bs False off = Inr s"
  shows "\<exists>a. mem_map env ''main_ram'' = Some a \<and>
     soccore_regions env (if wc then 0x8000 else 0) (if wc then 0x1000 else 0)
        (if wc then 0x4000 else 0) ''lime_top_mmap'' = None \<and>
     regions s =
       (soccore_regions env (if wc then 0x8000 else 0) (if wc then 0x1000 else 0)
          (if wc then 0x4000 else 0))
       (''lime_top_mmap'' \<mapsto> \<lparr>origin = 0x3000000, size_r = 0x1000, linker = False\<rparr>) \<and>
     constants s = [''ROM_BOOT_ADDRESS'' \<mapsto> a]"
proof -
  from BaseSoC_pre [OF assms] obtain t s2 where
    s2: "spiflash_section env False off t = Inr s2" and
    t: "regions t = soccore_regions env (if wc then 0x8000 else 0) (if wc then 0x1000 else 0)
        (if wc then 0x4000 else 0)" "constants t = Map.empty" and
    l: "regions s2 ''lime_top_mmap'' = None" and
    s: "regions s = (regions s2)(''lime_top_mmap'' \<mapsto>
              \<lparr>origin = 0x3000000, size_r = 0x1000, linker = False\<rparr>)" "constants s = constants s2"
    by (fastforce simp add: SoCCore_init_def)
  from spiflash_section_ram_Inr [OF s2] obtain a where
    "mem_map env ''main_ram'' = Some a"
    "regions s2 = regions t"
    "constants s2 = (constants t)(''ROM_BOOT_ADDRESS'' \<mapsto> a)"
    by fastforce
  with t l s show ?thesis by auto
qed


text \<open>
  The composition returns whenever the board is known, the firmware (if read) can be read, the
  CPU debug chain is asked for only with a CPU, the names of the regions it adds are free,
  and, in flash boot mode, the offset is an integer.
\<close>

lemma BaseSoC_returns:
  assumes "platform_of board = Inr p" and "main_ram_init env fw fb = Inr init" and "bs \<longrightarrow> wc"
    and "soccore_regions env (if wc then 0x8000 else 0) (if wc then 0x1000 else 0)
        (if wc then 0x4000 else 0) ''lime_top_mmap'' = None"
    and "if fb then
           (\<exists>n. off = PyInt n) \<and>
           soccore_regions env (if wc then 0x8000 else 0) (if wc then 0x1000 else 0)
             (if wc then 0x4000 else 0) ''spiflash'' = None \<and>
           soccore_regions env (if wc then 0x8000 else 0) (if wc then 0x1000 else 0)
             (if wc then 0x4000 else 0) ''flash'' = None
         else mem_map env ''main_ram'' \<noteq> None"
  shows "\<exists>s. BaseSoC env board f wc fw jb bs fb off = Inr s"
proof -
  define t0 where "t0 = jtagbone_section jb
         (CRG f ((SoCCore_init env p f wc bs init)\<lparr>uart_auto_tx_flush := Some (f, 1, 128)\<rparr>))"
  have c: "cpu_type t0 = (if wc then Some ''vexriscv_smp'' else None)"
    and r0: "regions t0 = soccore_regions env (if wc then 0x8000 else 0) (if wc then 0x1000 else 0)
        (if wc then 0x4000 else 0)"
    by (simp_all add: t0_def jtagbone_section_eq CRG_def add_component_def SoCCore_init_def)
  from c assms(3) obtain s1 where s1: "jtag_cpu_debug_section bs t0 = Inr s1"
    by (cases bs) (auto simp add: jtag_cpu_debug_section_def add_jtag_cpu_debug_def)
  from jtag_cpu_debug_section_Inr [OF s1] r0
  have r1: "regions (leds_icap_section s1) = soccore_regions env (if wc then 0x8000 else 0)
        (if wc then 0x1000 else 0) (if wc then 0x4000 else 0)"
    by (simp add: leds_icap_section_eq)
  have "\<exists>s2. spiflash_section env fb off (leds_icap_section s1) = Inr s2 \<and>
          regions s2 ''lime_top_mmap'' = None"
  proof (cases fb)
    case True
    with assms(5) obtain n where "off = PyInt n" by auto
    with True assms(4,5) r1 show ?thesis
      by (simp add: spiflash_section_def bind_err_def add_spi_flash_def bus_add_region_def
          bus_region_def py_add_def add_constant_def add_component_def)
  next
    case False
    with assms(5) obtain a where "mem_map env ''main_ram'' = Some a" by auto
    with False assms(4) r1 show ?thesis
      by (simp add: spiflash_section_def add_constant_def add_component_def)
  qed
  then obtain s2 where s2: "spiflash_section env fb off (leds_icap_section s1) = Inr s2"
    and l: "regions s2 ''lime_top_mmap'' = None" by blast
  from l have "\<exists>s. lime_top_section (timing_loop [0..<4] (peripherals_section s2)) = Inr s"
    by (simp add: lime_top_section_def bind_err_def bus_add_slave_def bus_add_region_def
        add_component_def timing_loop_eq peripherals_section_eq)
  with assms(1,2) s1 s2 show ?thesis
    unfolding BaseSoC_def t0_def by (auto simp add: bind_err_def)
qed


section \<open>Boot address (C1)\<close>

text \<open>
  C1. In every composition that returns: with \<open>flash_boot\<close> the constant
  \<^verbatim>\<open>FLASH_BOOT_ADDRESS\<close> is the origin of region \<^verbatim>\<open>spiflash\<close> plus the firmware flash
  offset, which is the origin of the linked region \<^verbatim>\<open>flash\<close>, and no \<^verbatim>\<open>ROM_BOOT_ADDRESS\<close>
  is exported; without \<open>flash_boot\<close> the constant \<^verbatim>\<open>ROM_BOOT_ADDRESS\<close> is
  \<^verbatim>\<open>mem_map["main_ram"]\<close>, which is the origin of region \<^verbatim>\<open>main_ram\<close> wherever the library
  places that region at its \<^verbatim>\<open>mem_map\<close> entry.
\<close>

theorem boot_constant_follows_boot_mode:
  assumes "BaseSoC env board f wc fw jb bs fb off = Inr s"
  shows "(if fb then
           (\<exists>n sf fl. off = PyInt n \<and> regions s ''spiflash'' = Some sf \<and>
              regions s ''flash'' = Some fl \<and> linker fl \<and> origin fl = origin sf + n \<and>
              constants s ''FLASH_BOOT_ADDRESS'' = Some (origin sf + n) \<and>
              constants s ''ROM_BOOT_ADDRESS'' = None)
         else
           (\<exists>a. mem_map env ''main_ram'' = Some a \<and>
              constants s ''ROM_BOOT_ADDRESS'' = Some a \<and>
              constants s ''FLASH_BOOT_ADDRESS'' = None \<and>
              (main_ram_at_mem_map env \<longrightarrow>
                 (\<forall>r. regions s ''main_ram'' = Some r \<longrightarrow> origin r = a))))"
proof (cases fb)
  case True
  with assms have "BaseSoC env board f wc fw jb bs True off = Inr s" by simp
  from BaseSoC_boot_flash [OF this] obtain n where
    "off = PyInt n"
    "regions s =
       (soccore_regions env (if wc then 0x8000 else 0) (if wc then 0x1000 else 0)
          (if wc then 0x4000 else 0))
       (''spiflash'' \<mapsto> spiflash_region env,
        ''flash'' \<mapsto> \<lparr>origin = origin (spiflash_region env) + n, size_r = 0x40000, linker = True\<rparr>,
        ''lime_top_mmap'' \<mapsto> \<lparr>origin = 0x3000000, size_r = 0x1000, linker = False\<rparr>)"
    "constants s = [''FLASH_BOOT_ADDRESS'' \<mapsto> origin (spiflash_region env) + n]"
    by blast
  with True show ?thesis by simp
next
  case False
  with assms have "BaseSoC env board f wc fw jb bs False off = Inr s" by simp
  from BaseSoC_boot_ram [OF this] obtain a where
    "mem_map env ''main_ram'' = Some a"
    "regions s =
       (soccore_regions env (if wc then 0x8000 else 0) (if wc then 0x1000 else 0)
          (if wc then 0x4000 else 0))
       (''lime_top_mmap'' \<mapsto> \<lparr>origin = 0x3000000, size_r = 0x1000, linker = False\<rparr>)"
    "constants s = [''ROM_BOOT_ADDRESS'' \<mapsto> a]"
    by blast
  with False show ?thesis by (auto simp add: main_ram_at_mem_map_def)
qed


theorem boot_constant_follows_boot_mode_witness:
  "(\<exists>s. BaseSoC env0 ''limesdr'' 125000000 True None True False True (PyInt 0x220000) = Inr s \<and>
        constants s ''FLASH_BOOT_ADDRESS'' = Some 0x20220000 \<and>
        map_option origin (regions s ''flash'') = Some 0x20220000 \<and>
        map_option origin (regions s ''spiflash'') = Some 0x20000000) \<and>
   (\<exists>s. BaseSoC env0 ''limesdr'' 125000000 True None True False False (PyInt 0x220000) = Inr s \<and>
        main_ram_at_mem_map env0 \<and>
        constants s ''ROM_BOOT_ADDRESS'' = Some 0x40000000 \<and>
        map_option origin (regions s ''main_ram'') = Some 0x40000000)"
proof
  have "\<exists>s. BaseSoC env0 ''limesdr'' 125000000 True None True False True (PyInt 0x220000) = Inr s"
    by (rule BaseSoC_returns [where p = Limesdr_xtrx_platform and init = "[]"])
       (simp_all add: platform_of_def main_ram_init_def env0_def)
  then obtain s where
    s: "BaseSoC env0 ''limesdr'' 125000000 True None True False True (PyInt 0x220000) = Inr s" ..
  from boot_constant_follows_boot_mode [OF s] BaseSoC_boot_flash [OF s]
  have "constants s ''FLASH_BOOT_ADDRESS'' = Some 0x20220000 \<and>
        map_option origin (regions s ''flash'') = Some 0x20220000 \<and>
        map_option origin (regions s ''spiflash'') = Some 0x20000000"
    by (auto simp add: env0_def)
  with s show "\<exists>s. BaseSoC env0 ''limesdr'' 125000000 True None True False True (PyInt 0x220000) = Inr s \<and>
        constants s ''FLASH_BOOT_ADDRESS'' = Some 0x20220000 \<and>
        map_option origin (regions s ''flash'') = Some 0x20220000 \<and>
        map_option origin (regions s ''spiflash'') = Some 0x20000000" by blast
next
  have "\<exists>s. BaseSoC env0 ''limesdr'' 125000000 True None True False False (PyInt 0x220000) = Inr s"
    by (rule BaseSoC_returns [where p = Limesdr_xtrx_platform and init = "[]"])
       (simp_all add: platform_of_def main_ram_init_def env0_def)
  then obtain s where
    s: "BaseSoC env0 ''limesdr'' 125000000 True None True False False (PyInt 0x220000) = Inr s" ..
  have c: "main_ram_at_mem_map env0"
    by (simp add: main_ram_at_mem_map_def env0_def)
  from BaseSoC_boot_ram [OF s] have "\<exists>r. regions s ''main_ram'' = Some r"
    by (auto simp add: env0_def)
  with boot_constant_follows_boot_mode [OF s] c
  have "constants s ''ROM_BOOT_ADDRESS'' = Some 0x40000000 \<and>
        map_option origin (regions s ''main_ram'') = Some 0x40000000"
    by (auto simp add: env0_def)
  with s c show "\<exists>s. BaseSoC env0 ''limesdr'' 125000000 True None True False False (PyInt 0x220000) = Inr s \<and>
        main_ram_at_mem_map env0 \<and>
        constants s ''ROM_BOOT_ADDRESS'' = Some 0x40000000 \<and>
        map_option origin (regions s ''main_ram'') = Some 0x40000000" by blast
qed

section \<open>Peripheral indices (C6)\<close>

text \<open>
  C6. The indices of the peripheral-index table are pairwise distinct, as are its names. The
  table is the enumeration written in the source, with gaps between the groups: it is not
  the count 0, 1, 2, ... of its entries.
\<close>

theorem csr_map_indices_distinct:
  "distinct (map snd csr_map) \<and> distinct (map fst csr_map) \<and>
   map snd csr_map = [0, 1, 2, 3, 4, 10, 11, 12, 20, 21, 30] \<and>
   map snd csr_map \<noteq> [0..<length csr_map]"
  by (simp add: csr_map_def upt_rec)


section \<open>The command line and the build loop, unfolded\<close>

text \<open>
  The namespace keeps what the command line gave; the two runs of the loop are written out;
  the steps after the loop never ask for the image; and the reference inputs are evaluated.
\<close>

lemma parse_args_Inr:
  assumes "parse_args c = Inr a"
  shows "args_with_bscan a = cli_with_bscan c \<and> args_build a = cli_build c \<and>
     args_load a = cli_load c \<and> args_flash a = cli_flash c \<and> args_driver a = cli_driver c \<and>
     args_flash_boot a = cli_flash_boot c \<and>
     args_firmware_flash_offset a =
       (case cli_firmware_flash_offset c of None \<Rightarrow> PyInt 0x220000 | Some t \<Rightarrow> PyStr t) \<and>
     args_board a = (case cli_board c of None \<Rightarrow> ''fairwaves_pro'' | Some b \<Rightarrow> b) \<and>
     (args_board a = ''fairwaves_cs'' \<or> args_board a = ''fairwaves_pro'' \<or>
      args_board a = ''limesdr'')"
  using assms
  by (cases "cli_board c") (auto simp add: parse_args_def bind_err_def split: if_splits)

lemma main_unfold:
  assumes "parse_args c = Inr a"
  shows "main W c =
     (case compose (litex W) a 0 of
        Inl e \<Rightarrow> ([], Some e)
      | Inr s0 \<Rightarrow>
         (case builder_build W 0 s0 False of
            Some e \<Rightarrow> ([Builder_build 0 False], Some e)
          | None \<Rightarrow>
             (case compose (litex W) a 1 of
                Inl e \<Rightarrow>
                  ([Builder_build 0 False,
                    Os_system (''cd firmware && make BUILD_DIR='' @ output_dir W @ '' clean all'')],
                   Some e)
              | Inr s1 \<Rightarrow>
                 (case builder_build W 1 s1 (args_build a) of
                    Some e \<Rightarrow>
                      ([Builder_build 0 False,
                        Os_system (''cd firmware && make BUILD_DIR='' @ output_dir W @ '' clean all''),
                        Builder_build 1 (args_build a)],
                       Some e)
                  | None \<Rightarrow>
                      ([Builder_build 0 False,
                        Os_system (''cd firmware && make BUILD_DIR='' @ output_dir W @ '' clean all''),
                        Builder_build 1 (args_build a)] @ post_build W a,
                       None)))))"
  using assms by (simp add: main_def upt_rec split: sum.splits option.splits)

lemma post_build_no_image: "\<not> list_ex requests_image (post_build W a)"
  by (simp add: post_build_def)

lemma compose_env0_returns:
  assumes "args_board a = ''limesdr''" and "\<exists>n. args_firmware_flash_offset a = PyInt n"
    and "run = 0 \<or> args_flash_boot a \<or>
         get_mem_data env ''firmware/firmware.bin'' = Inr d"
    and "mem_map env = mem_map env0" "soccore_regions env = soccore_regions env0"
  shows "\<exists>s. compose env a run = Inr s"
  unfolding compose_def
  apply (rule BaseSoC_returns [where p = Limesdr_xtrx_platform and
       init = "if run = 0 \<or> args_flash_boot a then [] else d"])
  using assms by (auto simp add: platform_of_def main_ram_init_def env0_def cpu_firmware_arg_def)

lemma main_world0_cli0:
  "main world0 cli0 =
     ([Builder_build 0 False,
       Os_system ''cd firmware && make BUILD_DIR=build/limesdr_xtrx_platform clean all'',
       Builder_build 1 True,
       Generate_litepcie_software ''software'' False], None)"
proof -
  have p: "parse_args cli0 = Inr args0"
    by (simp add: parse_args_def bind_err_def cli0_def args0_def)
  have "\<exists>s. compose env0 args0 0 = Inr s" "\<exists>s. compose env0 args0 1 = Inr s"
    by (rule compose_env0_returns [where d = "[0x00000013, 0x0000006f]"];
        simp add: args0_def env0_def)+
  then obtain s0 s1 where "compose env0 args0 0 = Inr s0" "compose env0 args0 1 = Inr s1"
    by blast
  then show ?thesis
    unfolding main_unfold [OF p]
    by (simp add: world0_def post_build_def args0_def)
qed

lemma BaseSoC_text_offset:
  assumes "platform_of board = Inr p" and "main_ram_init env fw True = Inr init" and "bs \<longrightarrow> wc"
    and "soccore_regions env (if wc then 0x8000 else 0) (if wc then 0x1000 else 0)
        (if wc then 0x4000 else 0) ''spiflash'' = None"
  shows "BaseSoC env board f wc fw jb bs True (PyStr t) = Inl TypeError"
proof -
  define t0 where "t0 = jtagbone_section jb
         (CRG f ((SoCCore_init env p f wc bs init)\<lparr>uart_auto_tx_flush := Some (f, 1, 128)\<rparr>))"
  have c: "cpu_type t0 = (if wc then Some ''vexriscv_smp'' else None)"
    and r0: "regions t0 = soccore_regions env (if wc then 0x8000 else 0) (if wc then 0x1000 else 0)
        (if wc then 0x4000 else 0)"
    by (simp_all add: t0_def jtagbone_section_eq CRG_def add_component_def SoCCore_init_def)
  from c assms(3) obtain s1 where s1: "jtag_cpu_debug_section bs t0 = Inr s1"
    by (cases bs) (auto simp add: jtag_cpu_debug_section_def add_jtag_cpu_debug_def)
  from jtag_cpu_debug_section_Inr [OF s1] r0
  have r1: "regions (leds_icap_section s1) = soccore_regions env (if wc then 0x8000 else 0)
        (if wc then 0x1000 else 0) (if wc then 0x4000 else 0)"
    by (simp add: leds_icap_section_eq)
  with assms(4)
  have "spiflash_section env True (PyStr t) (leds_icap_section s1) = Inl TypeError"
    by (simp add: spiflash_section_def bind_err_def add_spi_flash_def bus_add_region_def
        bus_region_def py_add_def add_component_def)
  with assms(1,2) s1 show ?thesis
    unfolding BaseSoC_def t0_def by (simp add: bind_err_def)
qed

lemma compose_get_mem_data_unread:
  assumes "run = 0 \<or> args_flash_boot a"
  shows "compose (env\<lparr>get_mem_data := g\<rparr>) a run = compose env a run"
  using assms
  by (auto simp add: compose_def BaseSoC_def main_ram_init_def cpu_firmware_arg_def
      SoCCore_init_def spiflash_section_def add_spi_flash_def)

lemma parse_cli_flash_boot_offset:
  "parse_args cli_flash_boot_offset =
     Inr (args0\<lparr>args_flash_boot := True, args_firmware_flash_offset := PyStr ''0x220000''\<rparr>)"
  by (simp add: parse_args_def bind_err_def cli_flash_boot_offset_def cli0_def args0_def)

lemma compose_env0_text_offset:
  "compose env0
     (args0\<lparr>args_flash_boot := True, args_firmware_flash_offset := PyStr ''0x220000''\<rparr>) 0 =
   Inl TypeError"
  unfolding compose_def
  by (simp add: args0_def,
      rule BaseSoC_text_offset [where p = Limesdr_xtrx_platform and init = "[]"])
     (simp_all add: platform_of_def main_ram_init_def cpu_firmware_arg_def env0_def)

lemma main_make_status: "main (W\<lparr>make_status := st\<rparr>) c = main W c"
proof (cases "parse_args c")
  case (Inl e)
  then show ?thesis by (simp add: main_def)
next
  case (Inr a)
  show ?thesis unfolding main_unfold [OF Inr]
    by (simp add: post_build_def split: sum.splits option.splits)
qed

lemma parse_cli0: "parse_args cli0 = Inr args0"
  by (simp add: parse_args_def bind_err_def cli0_def args0_def)

lemma parse_cli_flash_boot_build:
  "parse_args cli_flash_boot_build = Inr (args0\<lparr>args_flash_boot := True\<rparr>)"
  by (simp add: parse_args_def bind_err_def cli_flash_boot_build_def cli0_def args0_def)

lemma compose_no_firmware_file:
  "compose (env0\<lparr>get_mem_data := (\<lambda>f. Inl (OSError f))\<rparr>) args0 1 =
     Inl (OSError ''firmware/firmware.bin'')"
  by (simp add: compose_def BaseSoC_def bind_err_def platform_of_def main_ram_init_def
      cpu_firmware_arg_def args0_def)


section \<open>Image generation (C7)\<close>

text \<open>
  C7. The first run (prepare) never requests the hardware image: every event of a build that
  requests the image is \<^verbatim>\<open>builder.build(run=True)\<close> of the second run (finalize), and it
  occurs only when \<^verbatim>\<open>--build\<close> was given.
\<close>

theorem image_requested_only_in_finalize:
  assumes "parse_args c = Inr a" and "ev \<in> set (fst (main W c))" and "requests_image ev"
  shows "ev = Builder_build 1 True \<and> args_build a"
proof -
  from post_build_no_image [of W a] assms(3) have "ev \<notin> set (post_build W a)"
    by (auto simp add: list_ex_iff)
  with assms(2,3) show ?thesis
    unfolding main_unfold [OF assms(1)]
    by (auto split: sum.splits option.splits)
qed

theorem image_requested_only_in_finalize_witness:
  "parse_args cli0 = Inr args0 \<and> Builder_build 1 True \<in> set (fst (main world0 cli0)) \<and>
   Builder_build 0 False \<in> set (fst (main world0 cli0)) \<and>
   requests_image (Builder_build 1 True) \<and> args_build args0"
proof -
  have p: "parse_args cli0 = Inr args0"
    by (simp add: parse_args_def bind_err_def cli0_def args0_def)
  have m: "Builder_build 1 True \<in> set (fst (main world0 cli0))"
    "Builder_build 0 False \<in> set (fst (main world0 cli0))"
    by (simp_all add: main_world0_cli0)
  from image_requested_only_in_finalize [OF p m(1)] p m show ?thesis by simp
qed

section \<open>Firmware payload by phase (C2)\<close>

text \<open>
  C2. Every build whose command line is accepted is the two runs in order: the composition of
  run 0, its builder step, the firmware's \<^verbatim>\<open>make\<close>, the composition of run 1, its builder
  step, then the steps after the loop; an exception at any of them ends the build there.
  Run 0 (prepare) composes with no firmware: the firmware file is not read and the initial
  contents of main RAM are empty. Run 1 (finalize) is given the firmware file; its contents
  become the initial contents of main RAM exactly when \<open>flash_boot\<close> is off. With
  \<open>flash_boot\<close> on, main RAM starts empty in both runs and the file is not read.
\<close>

theorem firmware_payload_by_phase:
  "(parse_args c = Inr a \<longrightarrow>
      main W c =
        (case compose (litex W) a 0 of
           Inl e \<Rightarrow> ([], Some e)
         | Inr s0 \<Rightarrow>
            (case builder_build W 0 s0 False of
               Some e \<Rightarrow> ([Builder_build 0 False], Some e)
             | None \<Rightarrow>
                (case compose (litex W) a 1 of
                   Inl e \<Rightarrow>
                     ([Builder_build 0 False,
                       Os_system (''cd firmware && make BUILD_DIR='' @ output_dir W @ '' clean all'')],
                      Some e)
                 | Inr s1 \<Rightarrow>
                    (case builder_build W 1 s1 (args_build a) of
                       Some e \<Rightarrow>
                         ([Builder_build 0 False,
                           Os_system (''cd firmware && make BUILD_DIR='' @ output_dir W @ '' clean all''),
                           Builder_build 1 (args_build a)],
                          Some e)
                     | None \<Rightarrow>
                         ([Builder_build 0 False,
                           Os_system (''cd firmware && make BUILD_DIR='' @ output_dir W @ '' clean all''),
                           Builder_build 1 (args_build a)] @ post_build W a,
                          None)))))) \<and>
   cpu_firmware_arg 0 = None \<and> cpu_firmware_arg 1 = Some ''firmware/firmware.bin'' \<and>
   compose (env\<lparr>get_mem_data := g\<rparr>) a 0 = compose env a 0 \<and>
   (compose env a 0 = Inr s0 \<longrightarrow> integrated_main_ram_init s0 = []) \<and>
   (compose env a 1 = Inr s1 \<longrightarrow>
      (if args_flash_boot a then integrated_main_ram_init s1 = []
       else get_mem_data env ''firmware/firmware.bin'' = Inr (integrated_main_ram_init s1))) \<and>
   (args_flash_boot a \<longrightarrow> compose (env\<lparr>get_mem_data := g\<rparr>) a 1 = compose env a 1)"
proof -
  have "compose env a 0 = Inr s0 \<longrightarrow> integrated_main_ram_init s0 = []"
  proof
    assume "compose env a 0 = Inr s0"
    from BaseSoC_common [OF this [unfolded compose_def]] show "integrated_main_ram_init s0 = []"
      by (simp add: main_ram_init_def cpu_firmware_arg_def)
  qed
  moreover have "compose env a 1 = Inr s1 \<longrightarrow>
      (if args_flash_boot a then integrated_main_ram_init s1 = []
       else get_mem_data env ''firmware/firmware.bin'' = Inr (integrated_main_ram_init s1))"
  proof
    assume "compose env a 1 = Inr s1"
    from BaseSoC_common [OF this [unfolded compose_def]]
    have "main_ram_init env (cpu_firmware_arg 1) (args_flash_boot a) =
        Inr (integrated_main_ram_init s1)" by blast
    then show "if args_flash_boot a then integrated_main_ram_init s1 = []
       else get_mem_data env ''firmware/firmware.bin'' = Inr (integrated_main_ram_init s1)"
      by (auto simp add: main_ram_init_def cpu_firmware_arg_def)
  qed
  moreover have "cpu_firmware_arg 0 = None \<and> cpu_firmware_arg 1 = Some ''firmware/firmware.bin''"
    by (simp add: cpu_firmware_arg_def)
  moreover have "compose (env\<lparr>get_mem_data := g\<rparr>) a 0 = compose env a 0"
    by (simp add: compose_get_mem_data_unread)
  moreover have "args_flash_boot a \<longrightarrow> compose (env\<lparr>get_mem_data := g\<rparr>) a 1 = compose env a 1"
    by (simp add: compose_get_mem_data_unread)
  moreover note main_unfold [where c = c and a = a and W = W]
  ultimately show ?thesis by blast
qed

theorem firmware_payload_by_phase_witness:
  "parse_args cli0 = Inr args0 \<and>
   main (world0\<lparr>builder_build := (\<lambda>run s b.
           if integrated_main_ram_init s = (if run = 0 then [] else [0x00000013, 0x0000006f])
           then None else Some (OSError ''main_ram''))\<rparr>) cli0 =
     ([Builder_build 0 False,
       Os_system ''cd firmware && make BUILD_DIR=build/limesdr_xtrx_platform clean all'',
       Builder_build 1 True,
       Generate_litepcie_software ''software'' False], None) \<and>
   parse_args cli_flash_boot_build = Inr (args0\<lparr>args_flash_boot := True\<rparr>) \<and>
   main (world0\<lparr>builder_build := (\<lambda>run s b.
           if integrated_main_ram_init s = [] then None else Some (OSError ''main_ram''))\<rparr>)
        cli_flash_boot_build =
     ([Builder_build 0 False,
       Os_system ''cd firmware && make BUILD_DIR=build/limesdr_xtrx_platform clean all'',
       Builder_build 1 True,
       Generate_litepcie_software ''software'' False], None)"
proof -
  have "\<exists>s. compose env0 args0 0 = Inr s" "\<exists>s. compose env0 args0 1 = Inr s"
    by (rule compose_env0_returns [where d = "[0x00000013, 0x0000006f]"];
        simp add: args0_def env0_def)+
  then obtain s0 s1 where s: "compose env0 args0 0 = Inr s0" "compose env0 args0 1 = Inr s1"
    by blast
  note t = firmware_payload_by_phase [where env = env0 and a = args0 and ?s0.0 = s0 and
      ?s1.0 = s1 and c = cli0 and
      W = "world0\<lparr>builder_build := (\<lambda>run s b.
           if integrated_main_ram_init s = (if run = 0 then [] else [0x00000013, 0x0000006f])
           then None else Some (OSError ''main_ram''))\<rparr>"]
  from t s have i: "integrated_main_ram_init s0 = []"
    "integrated_main_ram_init s1 = [0x00000013, 0x0000006f]"
    by (simp_all add: args0_def env0_def)
  from t [THEN conjunct1] parse_cli0 s i
  have m1: "main (world0\<lparr>builder_build := (\<lambda>run s b.
           if integrated_main_ram_init s = (if run = 0 then [] else [0x00000013, 0x0000006f])
           then None else Some (OSError ''main_ram''))\<rparr>) cli0 =
     ([Builder_build 0 False,
       Os_system ''cd firmware && make BUILD_DIR=build/limesdr_xtrx_platform clean all'',
       Builder_build 1 True,
       Generate_litepcie_software ''software'' False], None)"
    by (simp add: world0_def post_build_def args0_def)
  have "\<exists>s. compose env0 (args0\<lparr>args_flash_boot := True\<rparr>) 0 = Inr s"
    "\<exists>s. compose env0 (args0\<lparr>args_flash_boot := True\<rparr>) 1 = Inr s"
    by (rule compose_env0_returns [where d = "[]"]; simp add: args0_def env0_def)+
  then obtain f0 f1 where f: "compose env0 (args0\<lparr>args_flash_boot := True\<rparr>) 0 = Inr f0"
    "compose env0 (args0\<lparr>args_flash_boot := True\<rparr>) 1 = Inr f1"
    by blast
  note u = firmware_payload_by_phase [where env = env0 and
      a = "args0\<lparr>args_flash_boot := True\<rparr>" and ?s0.0 = f0 and
      ?s1.0 = f1 and c = cli_flash_boot_build and
      W = "world0\<lparr>builder_build := (\<lambda>run s b.
           if integrated_main_ram_init s = [] then None else Some (OSError ''main_ram''))\<rparr>"]
  from u f have j: "integrated_main_ram_init f0 = []" "integrated_main_ram_init f1 = []"
    by simp_all
  from u [THEN conjunct1] parse_cli_flash_boot_build f j
  have m2: "main (world0\<lparr>builder_build := (\<lambda>run s b.
           if integrated_main_ram_init s = [] then None else Some (OSError ''main_ram''))\<rparr>)
        cli_flash_boot_build =
     ([Builder_build 0 False,
       Os_system ''cd firmware && make BUILD_DIR=build/limesdr_xtrx_platform clean all'',
       Builder_build 1 True,
       Generate_litepcie_software ''software'' False], None)"
    by (simp add: world0_def post_build_def args0_def)
  from parse_cli0 parse_cli_flash_boot_build m1 m2 show ?thesis by simp
qed

section \<open>JTAGBone and the CPU debug chain (C10)\<close>

text \<open>
  C10. For every command line and every run that composes, the JTAGBone bridge is present
  iff \<^verbatim>\<open>--with-bscan\<close> is not given, the JTAG CPU debug chain is present iff it is given, and
  the two are never both present.
\<close>

theorem jtagbone_iff_not_bscan:
  assumes "parse_args c = Inr a" and "compose env a run = Inr s"
  shows "(''jtagbone'' \<in> set (components s) \<longleftrightarrow> \<not> cli_with_bscan c) \<and>
     (''jtag'' \<in> set (components s) \<longleftrightarrow> cli_with_bscan c) \<and>
     \<not> (''jtagbone'' \<in> set (components s) \<and> ''jtag'' \<in> set (components s))"
proof -
  from parse_args_Inr [OF assms(1)] have b: "args_with_bscan a = cli_with_bscan c" by blast
  from BaseSoC_common [OF assms(2) [unfolded compose_def]]
  have "components s =
       [''crg''] @ (if \<not> args_with_bscan a then [''jtagbone_phy'', ''jtagbone''] else []) @
       (if args_with_bscan a then [''jtag'', ''cd_jtag''] else []) @ [''leds'', ''icap''] @
       (if args_flash_boot a then [''spiflash''] else [''flash_cs_n'', ''flash'']) @
       [''xadc'', ''dna'', ''pcie_phy'', ''pcie_msi'', ''pcie_dma0'', ''i2c0'', ''i2c1'',
        ''aux'', ''lime_top'']" by blast
  with b show ?thesis by simp
qed

theorem jtagbone_iff_not_bscan_witness:
  "(\<exists>a s. parse_args cli0 = Inr a \<and> compose env0 a 0 = Inr s \<and>
      ''jtagbone'' \<in> set (components s) \<and> ''jtag'' \<notin> set (components s)) \<and>
   (\<exists>a s. parse_args cli_with_bscan_build = Inr a \<and> compose env0 a 0 = Inr s \<and>
      ''jtagbone'' \<notin> set (components s) \<and> ''jtag'' \<in> set (components s))"
proof
  have p: "parse_args cli0 = Inr args0"
    by (simp add: parse_args_def bind_err_def cli0_def args0_def)
  have "\<exists>s. compose env0 args0 0 = Inr s"
    by (rule compose_env0_returns [where d = "[]"]; simp add: args0_def)
  then obtain s where s: "compose env0 args0 0 = Inr s" ..
  from jtagbone_iff_not_bscan [OF p s] p s
  show "\<exists>a s. parse_args cli0 = Inr a \<and> compose env0 a 0 = Inr s \<and>
      ''jtagbone'' \<in> set (components s) \<and> ''jtag'' \<notin> set (components s)"
    by (auto simp add: cli0_def)
next
  have p: "parse_args cli_with_bscan_build = Inr (args0\<lparr>args_with_bscan := True\<rparr>)"
    by (simp add: parse_args_def bind_err_def cli_with_bscan_build_def cli0_def args0_def)
  have "\<exists>s. compose env0 (args0\<lparr>args_with_bscan := True\<rparr>) 0 = Inr s"
    by (rule compose_env0_returns [where d = "[]"]; simp add: args0_def)
  then obtain s where s: "compose env0 (args0\<lparr>args_with_bscan := True\<rparr>) 0 = Inr s" ..
  from jtagbone_iff_not_bscan [OF p s] p s
  show "\<exists>a s. parse_args cli_with_bscan_build = Inr a \<and> compose env0 a 0 = Inr s \<and>
      ''jtagbone'' \<notin> set (components s) \<and> ''jtag'' \<in> set (components s)"
    by (auto simp add: cli_with_bscan_build_def cli0_def)
qed

section \<open>The firmware flash offset on the command line (C8)\<close>

text \<open>
  C8. The option \<^verbatim>\<open>--firmware-flash-offset\<close> has the integer default \<^verbatim>\<open>0x220000\<close> but
  declares no conversion, so a value given on the command line stays text. With
  \<^verbatim>\<open>--flash-boot --firmware-flash-offset 0x220000\<close> the first composition raises
  \<^verbatim>\<open>TypeError\<close> where line 158 adds the offset to the origin of region \<^verbatim>\<open>spiflash\<close>: the
  program ends before any build step, and no linked flash region is composed.
\<close>

theorem flash_offset_text_raises:
  "main world0 cli_flash_boot_offset = ([], Some TypeError)"
proof -
  note p = parse_cli_flash_boot_offset
  from compose_env0_text_offset show ?thesis
    unfolding main_unfold [OF p] by (simp add: world0_def)
qed

section \<open>Aborting the build (C3)\<close>

text \<open>
  C3, as stated, fails: the status of the firmware's \<^verbatim>\<open>make\<close> is not read. In flash boot
  mode with \<^verbatim>\<open>--build\<close>, a firmware compilation that returns status 2 and leaves no
  firmware file is followed by the second run, which requests the hardware image, and the
  program ends without an exception.
\<close>

theorem make_failure_still_builds_image:
  "make_status world_make_fails = 2 \<and>
   get_mem_data (litex world_make_fails) ''firmware/firmware.bin'' =
     Inl (OSError ''firmware/firmware.bin'') \<and>
   main world_make_fails cli_flash_boot_build =
     ([Builder_build 0 False,
       Os_system ''cd firmware && make BUILD_DIR=build/limesdr_xtrx_platform clean all'',
       Builder_build 1 True,
       Generate_litepcie_software ''software'' False], None) \<and>
   requests_image (Builder_build 1 True)"
proof -
  have p: "parse_args cli_flash_boot_build = Inr (args0\<lparr>args_flash_boot := True\<rparr>)"
    by (simp add: parse_args_def bind_err_def cli_flash_boot_build_def cli0_def args0_def)
  have "\<exists>s. compose (litex world_make_fails) (args0\<lparr>args_flash_boot := True\<rparr>) 0 = Inr s"
    "\<exists>s. compose (litex world_make_fails) (args0\<lparr>args_flash_boot := True\<rparr>) 1 = Inr s"
    by (rule compose_env0_returns [where d = "[]"];
        simp add: args0_def world_make_fails_def world0_def)+
  then obtain s0 s1 where
    "compose (litex world_make_fails) (args0\<lparr>args_flash_boot := True\<rparr>) 0 = Inr s0"
    "compose (litex world_make_fails) (args0\<lparr>args_flash_boot := True\<rparr>) 1 = Inr s1"
    by blast
  then have "main world_make_fails cli_flash_boot_build =
     ([Builder_build 0 False,
       Os_system ''cd firmware && make BUILD_DIR=build/limesdr_xtrx_platform clean all'',
       Builder_build 1 True,
       Generate_litepcie_software ''software'' False], None)"
    unfolding main_unfold [OF p]
    by (simp add: world_make_fails_def world0_def post_build_def args0_def)
  then show ?thesis by (simp add: world_make_fails_def world0_def)
qed

text \<open>
  C3, amended. The outcome of a build does not depend on the status \<^verbatim>\<open>make\<close> returns. A
  command line that is refused ends the program with that exception before any step. When
  the composition of run 0 raises, the program ends with that exception and no step was
  started; when the builder of run 0 raises, it ends with that exception after that builder
  step alone; when the composition of run 1 raises, it ends with that exception after the
  builder step of run 0 and the firmware's \<^verbatim>\<open>make\<close>. None of these steps requests the
  hardware image.
\<close>

theorem build_aborts_on_exception:
  "main (W\<lparr>make_status := st\<rparr>) c = main W c \<and>
   (parse_args c = Inl e \<longrightarrow> main W c = ([], Some e)) \<and>
   (parse_args c = Inr a \<longrightarrow>
      (compose (litex W) a 0 = Inl e \<longrightarrow> main W c = ([], Some e)) \<and>
      (compose (litex W) a 0 = Inr s0 \<and> builder_build W 0 s0 False = Some e \<longrightarrow>
         main W c = ([Builder_build 0 False], Some e)) \<and>
      (compose (litex W) a 0 = Inr s0 \<and> builder_build W 0 s0 False = None \<and>
       compose (litex W) a 1 = Inl e \<longrightarrow>
         main W c =
           ([Builder_build 0 False,
             Os_system (''cd firmware && make BUILD_DIR='' @ output_dir W @ '' clean all'')],
            Some e))) \<and>
   \<not> list_ex requests_image
       [Builder_build 0 False,
        Os_system (''cd firmware && make BUILD_DIR='' @ output_dir W @ '' clean all'')]"
proof -
  have "parse_args c = Inl e \<longrightarrow> main W c = ([], Some e)"
    by (simp add: main_def)
  moreover have "parse_args c = Inr a \<longrightarrow>
      (compose (litex W) a 0 = Inl e \<longrightarrow> main W c = ([], Some e)) \<and>
      (compose (litex W) a 0 = Inr s0 \<and> builder_build W 0 s0 False = Some e \<longrightarrow>
         main W c = ([Builder_build 0 False], Some e)) \<and>
      (compose (litex W) a 0 = Inr s0 \<and> builder_build W 0 s0 False = None \<and>
       compose (litex W) a 1 = Inl e \<longrightarrow>
         main W c =
           ([Builder_build 0 False,
             Os_system (''cd firmware && make BUILD_DIR='' @ output_dir W @ '' clean all'')],
            Some e))"
  proof
    assume p: "parse_args c = Inr a"
    show "(compose (litex W) a 0 = Inl e \<longrightarrow> main W c = ([], Some e)) \<and>
      (compose (litex W) a 0 = Inr s0 \<and> builder_build W 0 s0 False = Some e \<longrightarrow>
         main W c = ([Builder_build 0 False], Some e)) \<and>
      (compose (litex W) a 0 = Inr s0 \<and> builder_build W 0 s0 False = None \<and>
       compose (litex W) a 1 = Inl e \<longrightarrow>
         main W c =
           ([Builder_build 0 False,
             Os_system (''cd firmware && make BUILD_DIR='' @ output_dir W @ '' clean all'')],
            Some e))"
      unfolding main_unfold [OF p] by simp
  qed
  ultimately show ?thesis by (simp add: main_make_status)
qed

theorem build_aborts_on_exception_witness:
  "main world0 cli_flash_boot_offset = ([], Some TypeError) \<and>
   main (world0\<lparr>builder_build := (\<lambda>run s b.
           if run = 0 then Some (OSError ''builder'') else None)\<rparr>) cli0 =
     ([Builder_build 0 False], Some (OSError ''builder'')) \<and>
   main (world0\<lparr>litex := env0\<lparr>get_mem_data := (\<lambda>f. Inl (OSError f))\<rparr>\<rparr>) cli0 =
     ([Builder_build 0 False,
       Os_system ''cd firmware && make BUILD_DIR=build/limesdr_xtrx_platform clean all''],
      Some (OSError ''firmware/firmware.bin'')) \<and>
   main (world0\<lparr>make_status := 2\<rparr>) cli0 = main world0 cli0 \<and>
   main world0 (cli0\<lparr>cli_board := Some ''xtrx''\<rparr>) = ([], Some (SystemExit 2))"
proof -
  from build_aborts_on_exception [where W = world0 and c = cli_flash_boot_offset and
      a = "args0\<lparr>args_flash_boot := True, args_firmware_flash_offset := PyStr ''0x220000''\<rparr>"
      and e = TypeError]
    parse_cli_flash_boot_offset compose_env0_text_offset
  have 1: "main world0 cli_flash_boot_offset = ([], Some TypeError)"
    by (simp add: world0_def)
  have "\<exists>s. compose env0 args0 0 = Inr s"
    by (rule compose_env0_returns [where d = "[]"]; simp add: args0_def)
  then obtain s0 where s0: "compose env0 args0 0 = Inr s0" ..
  from build_aborts_on_exception [where c = cli0 and a = args0 and ?s0.0 = s0 and
      e = "OSError ''builder''" and
      W = "world0\<lparr>builder_build := (\<lambda>run s b.
           if run = 0 then Some (OSError ''builder'') else None)\<rparr>"]
    parse_cli0 s0
  have 2: "main (world0\<lparr>builder_build := (\<lambda>run s b.
           if run = 0 then Some (OSError ''builder'') else None)\<rparr>) cli0 =
     ([Builder_build 0 False], Some (OSError ''builder''))"
    by (simp add: world0_def)
  have "\<exists>s. compose (env0\<lparr>get_mem_data := (\<lambda>f. Inl (OSError f))\<rparr>) args0 0 = Inr s"
    by (rule compose_env0_returns [where d = "[]"]; simp add: args0_def)
  then obtain t0 where
    t0: "compose (env0\<lparr>get_mem_data := (\<lambda>f. Inl (OSError f))\<rparr>) args0 0 = Inr t0" ..
  from build_aborts_on_exception [where c = cli0 and a = args0 and ?s0.0 = t0 and
      e = "OSError ''firmware/firmware.bin''" and
      W = "world0\<lparr>litex := env0\<lparr>get_mem_data := (\<lambda>f. Inl (OSError f))\<rparr>\<rparr>"]
    parse_cli0 t0 compose_no_firmware_file
  have 3: "main (world0\<lparr>litex := env0\<lparr>get_mem_data := (\<lambda>f. Inl (OSError f))\<rparr>\<rparr>) cli0 =
     ([Builder_build 0 False,
       Os_system ''cd firmware && make BUILD_DIR=build/limesdr_xtrx_platform clean all''],
      Some (OSError ''firmware/firmware.bin''))"
    by (simp add: world0_def)
  from build_aborts_on_exception [where W = world0 and c = cli0 and st = 2]
  have 4: "main (world0\<lparr>make_status := 2\<rparr>) cli0 = main world0 cli0" by (rule conjunct1)
  have "parse_args (cli0\<lparr>cli_board := Some ''xtrx''\<rparr>) = Inl (SystemExit 2)"
    by (simp add: parse_args_def bind_err_def cli0_def)
  with build_aborts_on_exception [where W = world0 and c = "cli0\<lparr>cli_board := Some ''xtrx''\<rparr>"
      and e = "SystemExit 2"]
  have 5: "main world0 (cli0\<lparr>cli_board := Some ''xtrx''\<rparr>) = ([], Some (SystemExit 2))"
    by blast
  from 1 2 3 4 5 show ?thesis by blast
qed

section \<open>Timing declarations (C9)\<close>






section \<open>Stream links (C5)\<close>



section \<open>The two boot modes compared (C4)\<close>




end
